theory Spec2Isabelle
  imports Complex_Main "HOL-Library.Sublist" "HOL-Library.Product_Lexorder"
begin

section \<open>Strings\<close>

text \<open>
  A JavaScript string is modelled as a \<^typ>\<open>string\<close>, one \<^typ>\<open>char\<close> per code unit, so
  that \<open>.length\<close> is \<^const>\<open>length\<close> and \<open>substring(0, n)\<close> is \<^term>\<open>take n\<close>.
  A \<^typ>\<open>char\<close> is a code unit from 0 to 255: the strings of the model are the strings
  of Latin-1 characters (U+0000 to U+00FF). On these \<open>toLowerCase\<close> works character by
  character: it maps \<open>A\<close>..\<open>Z\<close> (65..90) and the accented capitals U+00C0..U+00DE
  (192..222), the multiplication sign U+00D7 (215) excepted, to the character 32
  places further on, and leaves every other character alone. \<open>trim\<close> strips the white
  space and line terminators of the language from both ends: tab, line feed, vertical
  tab, form feed, carriage return, space and the no-break space U+00A0 (160). The
  store folds case the same way in \<open>LOWER\<close> and \<open>ILIKE\<close>.
\<close>

definition toLowerCase_char :: "char \<Rightarrow> char" where
  "toLowerCase_char c =
     (let n = (of_char c :: nat) in
      if 65 \<le> n \<and> n \<le> 90 then char_of (n + 32)
      else if 192 \<le> n \<and> n \<le> 222 \<and> n \<noteq> 215 then char_of (n + 32)
      else c)"

definition toLowerCase :: "string \<Rightarrow> string" where
  "toLowerCase s = map toLowerCase_char s"

definition isWhiteSpace :: "char \<Rightarrow> bool" where
  "isWhiteSpace c = (of_char c \<in> {9, 10, 11, 12, 13, 32, 160 :: nat})"

definition trim :: "string \<Rightarrow> string" where
  "trim s = rev (dropWhile isWhiteSpace (rev (dropWhile isWhiteSpace s)))"

section \<open>The store\<close>

subsection \<open>Pattern matching of the store: LIKE and ILIKE\<close>

text \<open>
  \<open>like s p\<close> is SQL's \<open>s LIKE p\<close>: in the pattern \<open>%\<close> stands for any sequence of
  characters, \<open>_\<close> for any single character, and a backslash makes the character after it
  literal. A pattern that ends in a lone backslash matches nothing here; PostgreSQL
  raises an error when a match reaches such an end. The store is a value in memory: a
  statement that fails, or a store that cannot be reached, is outside the model.
  \<open>ilike s p\<close> is the case-insensitive \<open>s ILIKE p\<close>: both sides are lower-cased first.
\<close>

fun like :: "string \<Rightarrow> string \<Rightarrow> bool" where
  "like s [] = (s = [])"
| "like s (c # p) =
     (if c = CHR ''%'' then
        (like s p \<or> (case s of [] \<Rightarrow> False | x # s' \<Rightarrow> like s' (c # p)))
      else if c = CHR ''_'' then
        (case s of [] \<Rightarrow> False | x # s' \<Rightarrow> like s' p)
      else if c = CHR 0x5C then
        (case p of [] \<Rightarrow> False
         | d # p' \<Rightarrow> (case s of [] \<Rightarrow> False | x # s' \<Rightarrow> x = d \<and> like s' p'))
      else
        (case s of [] \<Rightarrow> False | x # s' \<Rightarrow> x = c \<and> like s' p))"

definition ilike :: "string \<Rightarrow> string \<Rightarrow> bool" where
  "ilike s p = like (toLowerCase s) (toLowerCase p)"

text \<open>The three patterns the search builds from the search terms.\<close>

definition containsPattern :: "string \<Rightarrow> string" where
  "containsPattern terms = ''%'' @ terms @ ''%''"

definition startsPattern :: "string \<Rightarrow> string" where
  "startsPattern terms = terms @ ''%''"

definition endsPattern :: "string \<Rightarrow> string" where
  "endsPattern terms = ''%'' @ terms"

subsection \<open>Tables\<close>

text \<open>
  Timestamps are milliseconds since the epoch. A nullable column is an \<open>option\<close>.
  \<open>chatThreads.updatedAt\<close> is not nullable: \<open>searchChats\<close> stores it in a field of type
  \<open>Date | undefined\<close>.
\<close>

type_synonym timestamp = int

record chat_row =
  chat_id :: string
  chat_title :: "string option"
  chat_userId :: string
  chat_projectId :: "string option"
  chat_createdAt :: timestamp
  chat_updatedAt :: timestamp

datatype role = User | Assistant | System

record message_row =
  msg_id :: string
  msg_content :: string
  msg_role :: role
  msg_chatId :: string
  msg_createdAt :: timestamp

text \<open>
  Every statement sent to the store is recorded in \<open>issued\<close>, the newest last, with the
  parameters it was built from; this is what a test double of \<open>db\<close> observes.
\<close>

datatype statement = ChatSearch | MessageSearch | TitleSuggestions

record store_query =
  q_statement :: statement
  q_userId :: string
  q_projectId :: "string option"
  q_dateFrom :: "timestamp option"
  q_dateTo :: "timestamp option"
  q_terms :: string
  q_limit :: nat
  q_offset :: nat

record db =
  chatThreads :: "chat_row list"
  messages :: "message_row list"
  issued :: "store_query list"

subsection \<open>The filters of a search\<close>

record SearchFilters =
  userId :: string
  projectId :: "string option"
  dateFrom :: "timestamp option"
  dateTo :: "timestamp option"

text \<open>
  \<open>if (filters.projectId)\<close> adds the condition for a non-empty string only; the date
  conditions are added whenever a date is given. A condition on a column that is
  \<open>NULL\<close> is not satisfied.
\<close>

definition truthy :: "string option \<Rightarrow> bool" where
  "truthy v = (case v of None \<Rightarrow> False | Some s \<Rightarrow> s \<noteq> [])"

definition projectCondition :: "string option \<Rightarrow> string option \<Rightarrow> bool" where
  "projectCondition wanted col =
     (if truthy wanted then col \<noteq> None \<and> col = wanted else True)"

definition fromCondition :: "timestamp option \<Rightarrow> timestamp \<Rightarrow> bool" where
  "fromCondition d t = (case d of None \<Rightarrow> True | Some lo \<Rightarrow> lo \<le> t)"

definition toCondition :: "timestamp option \<Rightarrow> timestamp \<Rightarrow> bool" where
  "toCondition d t = (case d of None \<Rightarrow> True | Some hi \<Rightarrow> t \<le> hi)"

definition titleMatches :: "string \<Rightarrow> string option \<Rightarrow> bool" where
  "titleMatches terms title =
     (case title of None \<Rightarrow> False | Some t \<Rightarrow> ilike t (containsPattern terms))"

subsection \<open>The chat query\<close>

text \<open>
  The \<open>CASE\<close> expression of the chat query, on the title column: the first \<open>WHEN\<close>
  whose condition is true gives the score; on a \<open>NULL\<close> title no condition is true.
\<close>

definition chatScore :: "string \<Rightarrow> string option \<Rightarrow> rat" where
  "chatScore terms title =
     (case title of
        None \<Rightarrow> 40
      | Some t \<Rightarrow>
          if like (toLowerCase t) (containsPattern terms) then 100
          else if like (toLowerCase t) (startsPattern terms) then 80
          else if like (toLowerCase t) (endsPattern terms) then 60
          else 40)"

definition chatWhere :: "store_query \<Rightarrow> chat_row \<Rightarrow> bool" where
  "chatWhere q c =
     (chat_userId c = q_userId q
      \<and> projectCondition (q_projectId q) (chat_projectId c)
      \<and> fromCondition (q_dateFrom q) (chat_createdAt c)
      \<and> toCondition (q_dateTo q) (chat_createdAt c)
      \<and> titleMatches (q_terms q) (chat_title c))"

text \<open>
  \<open>ORDER BY score DESC, updatedAt DESC\<close>, then \<open>LIMIT\<close> and \<open>OFFSET\<close>. Rows that agree
  on both sort keys stay in table order.
\<close>

definition chatOrdered :: "(chat_row \<times> rat) list \<Rightarrow> (chat_row \<times> rat) list" where
  "chatOrdered rows = sort_key (\<lambda>(c, s). (- s, - chat_updatedAt c)) rows"

definition page :: "nat \<Rightarrow> nat \<Rightarrow> 'a list \<Rightarrow> 'a list" where
  "page limit offset rows = take limit (drop offset rows)"

definition chatMatches :: "store_query \<Rightarrow> chat_row list \<Rightarrow> (chat_row \<times> rat) list" where
  "chatMatches q tbl =
     chatOrdered (map (\<lambda>c. (c, chatScore (q_terms q) (chat_title c))) (filter (chatWhere q) tbl))"

definition selectChats :: "store_query \<Rightarrow> db \<Rightarrow> (chat_row \<times> rat) list \<times> db" where
  "selectChats q d =
     (page (q_limit q) (q_offset q) (chatMatches q (chatThreads d)),
      d\<lparr>issued := issued d @ [q]\<rparr>)"

section \<open>Search results\<close>

datatype result_type = Chat | Message

record Metadata =
  chatId :: "string option"
  chatTitle :: "string option"
  messageRole :: "role option"
  meta_projectId :: "string option"

record SearchResult =
  result_id :: string
  result_type :: result_type
  title :: string
  content :: string
  url :: string
  score :: rat
  createdAt :: timestamp
  updatedAt :: "timestamp option"
  metadata :: Metadata

text \<open>\<open>v || undefined\<close> and \<open>v || d\<close> on a nullable string: the empty string is falsy too.\<close>

definition orUndefined :: "string option \<Rightarrow> string option" where
  "orUndefined v = (if truthy v then v else None)"

definition orElse :: "string option \<Rightarrow> string \<Rightarrow> string" where
  "orElse v d = (case v of None \<Rightarrow> d | Some s \<Rightarrow> if s = [] then d else s)"

section \<open>searchChats\<close>

definition chatResult :: "chat_row \<times> rat \<Rightarrow> SearchResult" where
  "chatResult h =
     (case h of (c, s) \<Rightarrow>
       \<lparr> result_id = chat_id c,
         result_type = Chat,
         title = orElse (chat_title c) ''Untitled Chat'',
         content = orElse (chat_title c) [],
         url = ''/chat/'' @ chat_id c,
         score = s,
         createdAt = chat_createdAt c,
         updatedAt = Some (chat_updatedAt c),
         metadata = \<lparr> chatId = None, chatTitle = None, messageRole = None,
                      meta_projectId = orUndefined (chat_projectId c) \<rparr> \<rparr>)"

text \<open>
  The fuzzy matcher \<open>fuzzySearch\<close> of \<open>lib/fuzzy-search\<close> is a parameter of the model: any
  function from the candidate items and the query to a list of items.
\<close>

record fuzzy_item =
  item_id :: string
  item_label :: string

type_synonym fuzzy = "fuzzy_item list \<Rightarrow> string \<Rightarrow> fuzzy_item list"

definition fuzzyItem :: "SearchResult \<Rightarrow> fuzzy_item" where
  "fuzzyItem r = \<lparr> item_id = result_id r, item_label = title r \<rparr>"

text \<open>
  The loop over \<open>additionalResults\<close>: each item is looked up by id in \<open>results\<close>, as it
  stands at that moment, and a copy of the result found is pushed with its score scaled
  by \<open>0.8\<close>.
\<close>

fun pushFuzzy :: "SearchResult list \<Rightarrow> fuzzy_item list \<Rightarrow> SearchResult list" where
  "pushFuzzy results [] = results"
| "pushFuzzy results (it # its) =
     (case find (\<lambda>r. result_id r = item_id it) results of
        Some originalResult \<Rightarrow>
          pushFuzzy (results @ [originalResult\<lparr>score := score originalResult * (4 / 5)\<rparr>]) its
      | None \<Rightarrow> pushFuzzy results its)"

definition additionalResults ::
  "fuzzy \<Rightarrow> string \<Rightarrow> nat \<Rightarrow> SearchResult list \<Rightarrow> fuzzy_item list" where
  "additionalResults fuzzySearch query limit results =
     take (limit - length results)
       (filter (\<lambda>it. item_id it \<notin> set (map result_id results))
          (fuzzySearch (map fuzzyItem results) query))"

definition mergeFuzzy :: "fuzzy \<Rightarrow> string \<Rightarrow> nat \<Rightarrow> SearchResult list \<Rightarrow> SearchResult list" where
  "mergeFuzzy fuzzySearch query limit results =
     (if length results < limit
      then pushFuzzy results (additionalResults fuzzySearch query limit results)
      else results)"

text \<open>
  \<open>results.sort((a, b) => b.score - a.score)\<close>: a stable sort, highest score first.
\<close>

definition sortByScore :: "SearchResult list \<Rightarrow> SearchResult list" where
  "sortByScore results = sort_key (\<lambda>r. - score r) results"

definition chatQuery :: "string \<Rightarrow> SearchFilters \<Rightarrow> nat \<Rightarrow> nat \<Rightarrow> store_query" where
  "chatQuery searchTerms filters limit offset =
     \<lparr> q_statement = ChatSearch, q_userId = userId filters, q_projectId = projectId filters,
       q_dateFrom = dateFrom filters, q_dateTo = dateTo filters, q_terms = searchTerms,
       q_limit = limit, q_offset = offset \<rparr>"

definition searchChats ::
  "fuzzy \<Rightarrow> string \<Rightarrow> SearchFilters \<Rightarrow> nat \<Rightarrow> nat \<Rightarrow> db \<Rightarrow> SearchResult list \<times> db" where
  "searchChats fuzzySearch query filters limit offset d =
     (let searchTerms = toLowerCase (trim query) in
      if searchTerms = [] then ([], d)
      else
        (case selectChats (chatQuery searchTerms filters limit offset) d of
           (fullTextResults, d') \<Rightarrow>
             (sortByScore (mergeFuzzy fuzzySearch query limit (map chatResult fullTextResults)),
              d')))"

section \<open>searchMessages\<close>

subsection \<open>The message query\<close>

text \<open>
  The nested \<open>CASE\<close> expression of the message query, on the content column.
\<close>

definition messageScore :: "string \<Rightarrow> string \<Rightarrow> rat" where
  "messageScore terms body =
     (if like (toLowerCase body) (containsPattern terms) then
        (if like (toLowerCase body) (startsPattern terms) then 90
         else if like (toLowerCase body) (endsPattern terms) then 70
         else 50)
      else 30)"

text \<open>\<open>messages INNER JOIN chatThreads ON messages.chatId = chatThreads.id\<close>.\<close>

definition joined :: "db \<Rightarrow> (message_row \<times> chat_row) list" where
  "joined d = [(m, c). m \<leftarrow> messages d, c \<leftarrow> chatThreads d, msg_chatId m = chat_id c]"

definition messageWhere :: "store_query \<Rightarrow> message_row \<times> chat_row \<Rightarrow> bool" where
  "messageWhere q j =
     (case j of (m, c) \<Rightarrow>
        chat_userId c = q_userId q
        \<and> projectCondition (q_projectId q) (chat_projectId c)
        \<and> fromCondition (q_dateFrom q) (msg_createdAt m)
        \<and> toCondition (q_dateTo q) (msg_createdAt m)
        \<and> ilike (msg_content m) (containsPattern (q_terms q))
        \<and> (msg_role m = User \<or> msg_role m = Assistant))"

text \<open>\<open>ORDER BY score DESC, messages.createdAt DESC\<close>; ties stay in join order.\<close>

definition messageOrdered ::
  "((message_row \<times> chat_row) \<times> rat) list \<Rightarrow> ((message_row \<times> chat_row) \<times> rat) list" where
  "messageOrdered rows = sort_key (\<lambda>((m, c), s). (- s, - msg_createdAt m)) rows"

definition messageMatches :: "store_query \<Rightarrow> db \<Rightarrow> ((message_row \<times> chat_row) \<times> rat) list" where
  "messageMatches q d =
     messageOrdered
       (map (\<lambda>j. (j, messageScore (q_terms q) (msg_content (fst j))))
          (filter (messageWhere q) (joined d)))"

definition selectMessages ::
  "store_query \<Rightarrow> db \<Rightarrow> ((message_row \<times> chat_row) \<times> rat) list \<times> db" where
  "selectMessages q d =
     (page (q_limit q) (q_offset q) (messageMatches q d),
      d\<lparr>issued := issued d @ [q]\<rparr>)"

subsection \<open>Conversion of the rows\<close>

definition truncatedContent :: "string \<Rightarrow> string" where
  "truncatedContent messageContent =
     (if length messageContent > 200 then take 200 messageContent @ ''...''
      else messageContent)"

definition messageResult :: "(message_row \<times> chat_row) \<times> rat \<Rightarrow> SearchResult" where
  "messageResult h =
     (case h of ((m, c), s) \<Rightarrow>
       \<lparr> result_id = msg_id m,
         result_type = Message,
         title = ''Message in '' @ [CHR 0x22] @ orElse (chat_title c) ''Untitled Chat''
                   @ [CHR 0x22],
         content = truncatedContent (msg_content m),
         url = ''/chat/'' @ chat_id c @ ''?messageId='' @ msg_id m,
         score = s,
         createdAt = msg_createdAt m,
         updatedAt = None,
         metadata = \<lparr> chatId = Some (chat_id c), chatTitle = orUndefined (chat_title c),
                      messageRole = Some (msg_role m),
                      meta_projectId = orUndefined (chat_projectId c) \<rparr> \<rparr>)"

definition messageQuery :: "string \<Rightarrow> SearchFilters \<Rightarrow> nat \<Rightarrow> nat \<Rightarrow> store_query" where
  "messageQuery searchTerms filters limit offset =
     \<lparr> q_statement = MessageSearch, q_userId = userId filters,
       q_projectId = projectId filters, q_dateFrom = dateFrom filters,
       q_dateTo = dateTo filters, q_terms = searchTerms,
       q_limit = limit, q_offset = offset \<rparr>"

definition searchMessages ::
  "string \<Rightarrow> SearchFilters \<Rightarrow> nat \<Rightarrow> nat \<Rightarrow> db \<Rightarrow> SearchResult list \<times> db" where
  "searchMessages query filters limit offset d =
     (let searchTerms = toLowerCase (trim query) in
      if searchTerms = [] then ([], d)
      else
        (case selectMessages (messageQuery searchTerms filters limit offset) d of
           (messageResults, d') \<Rightarrow> (map messageResult messageResults, d')))"

section \<open>The combined search\<close>

text \<open>\<open>Math.ceil(limit / 2)\<close> on a natural number.\<close>

definition ceilHalf :: "nat \<Rightarrow> nat" where
  "ceilHalf limit = (limit + 1) div 2"

text \<open>
  \<open>semanticSearch\<close> of the search service: both searches at offset \<open>0\<close>, the chat search
  first, then \<open>slice(offset, offset + limit)\<close> of the sorted concatenation.
\<close>

definition semanticSearch ::
  "fuzzy \<Rightarrow> string \<Rightarrow> SearchFilters \<Rightarrow> nat \<Rightarrow> nat \<Rightarrow> db \<Rightarrow> SearchResult list \<times> db" where
  "semanticSearch fuzzySearch query filters limit offset d =
     (case searchChats fuzzySearch query filters (ceilHalf limit) 0 d of
        (chatResults, d1) \<Rightarrow>
          (case searchMessages query filters (ceilHalf limit) 0 d1 of
             (messageResults, d2) \<Rightarrow>
               (page limit offset (sortByScore (chatResults @ messageResults)), d2)))"

text \<open>
  \<open>searchAll\<close> is the branch \<open>case "all"\<close> of the search route: the same two calls, then
  \<open>slice(0, limit)\<close> of the sorted concatenation.
\<close>

definition searchAll ::
  "fuzzy \<Rightarrow> string \<Rightarrow> SearchFilters \<Rightarrow> nat \<Rightarrow> db \<Rightarrow> SearchResult list \<times> db" where
  "searchAll fuzzySearch query filters limit d =
     (case searchChats fuzzySearch query filters (ceilHalf limit) 0 d of
        (chatResults, d1) \<Rightarrow>
          (case searchMessages query filters (ceilHalf limit) 0 d1 of
             (messageResults, d2) \<Rightarrow>
               (take limit (sortByScore (chatResults @ messageResults)), d2)))"

section \<open>The search route\<close>

text \<open>
  The request as the handler sees it: the user id of the session, if there is one, and
  the parameters after coercion (an absent parameter is \<open>None\<close>). The schema requires a
  query of at least one character, a limit from 1 to 100 (default 20) and an offset of
  at least 0 (default 0); the type defaults to \<open>all\<close>. Limit and offset are whole
  numbers here. \<open>POST\<close> runs the same code on the parameters of the request body.
\<close>

datatype search_type = TypeAll | TypeChats | TypeMessages

datatype error = Unauthorized | InvalidArgument

record search_request =
  session_user :: "string option"
  param_q :: "string option"
  param_type :: "search_type option"
  param_limit :: "int option"
  param_offset :: "int option"
  param_dateFrom :: "timestamp option"
  param_dateTo :: "timestamp option"
  param_projectId :: "string option"

record validated =
  v_q :: string
  v_type :: search_type
  v_limit :: nat
  v_offset :: nat

definition searchQuerySchema :: "search_request \<Rightarrow> validated option" where
  "searchQuerySchema r =
     (case param_q r of
        None \<Rightarrow> None
      | Some q \<Rightarrow>
          (let l = (case param_limit r of None \<Rightarrow> 20 | Some l \<Rightarrow> l);
               off = (case param_offset r of None \<Rightarrow> 0 | Some off \<Rightarrow> off)
           in if length q \<ge> 1 \<and> 1 \<le> l \<and> l \<le> 100 \<and> 0 \<le> off
              then Some \<lparr> v_q = q,
                          v_type = (case param_type r of None \<Rightarrow> TypeAll | Some t \<Rightarrow> t),
                          v_limit = nat l, v_offset = nat off \<rparr>
              else None))"

record search_response =
  resp_results :: "SearchResult list"
  resp_query :: string
  resp_type :: search_type
  resp_total :: nat
  hasMore :: bool

definition respond :: "validated \<Rightarrow> SearchResult list \<Rightarrow> search_response" where
  "respond v rs =
     \<lparr> resp_results = rs, resp_query = v_q v, resp_type = v_type v,
       resp_total = length rs, hasMore = (length rs = v_limit v) \<rparr>"

definition GET :: "fuzzy \<Rightarrow> search_request \<Rightarrow> db \<Rightarrow> (error + search_response) \<times> db" where
  "GET fuzzySearch r d =
     (case session_user r of
        None \<Rightarrow> (Inl Unauthorized, d)
      | Some user \<Rightarrow>
          if user = [] then (Inl Unauthorized, d)
          else
            (case searchQuerySchema r of
               None \<Rightarrow> (Inl InvalidArgument, d)
             | Some v \<Rightarrow>
                 (let filters = \<lparr> userId = user, projectId = param_projectId r,
                                   dateFrom = param_dateFrom r, dateTo = param_dateTo r \<rparr>
                  in case (case v_type v of
                             TypeChats \<Rightarrow>
                               searchChats fuzzySearch (v_q v) filters (v_limit v) (v_offset v) d
                           | TypeMessages \<Rightarrow>
                               searchMessages (v_q v) filters (v_limit v) (v_offset v) d
                           | TypeAll \<Rightarrow> searchAll fuzzySearch (v_q v) filters (v_limit v) d)
                     of (rs, d') \<Rightarrow> (Inr (respond v rs), d'))))"

section \<open>getSearchSuggestions\<close>

text \<open>
  The titles of the user's chats that match the query as typed, most recently updated
  first, at most \<open>limit\<close> of them.
\<close>

definition suggestionQuery :: "string \<Rightarrow> string \<Rightarrow> nat \<Rightarrow> store_query" where
  "suggestionQuery user query limit =
     \<lparr> q_statement = TitleSuggestions, q_userId = user, q_projectId = None,
       q_dateFrom = None, q_dateTo = None, q_terms = query,
       q_limit = limit, q_offset = 0 \<rparr>"

definition selectTitles :: "store_query \<Rightarrow> db \<Rightarrow> string option list \<times> db" where
  "selectTitles q d =
     (map chat_title
        (take (q_limit q)
           (sort_key (\<lambda>c. - chat_updatedAt c)
              (filter (\<lambda>c. chat_userId c = q_userId q \<and> titleMatches (q_terms q) (chat_title c))
                 (chatThreads d)))),
      d\<lparr>issued := issued d @ [q]\<rparr>)"

text \<open>\<open>arr.indexOf(x)\<close>: the first index of \<open>x\<close>, or \<open>-1\<close>.\<close>

fun indexOf :: "'a list \<Rightarrow> 'a \<Rightarrow> int" where
  "indexOf [] x = - 1"
| "indexOf (y # ys) x =
     (if y = x then 0 else (let i = indexOf ys x in if i < 0 then - 1 else i + 1))"

text \<open>\<open>.filter(Boolean)\<close> on the titles: \<open>null\<close> and the empty string are dropped.\<close>

definition filterBoolean :: "string option list \<Rightarrow> string list" where
  "filterBoolean titles = [s. Some s \<leftarrow> titles, s \<noteq> []]"

text \<open>\<open>.filter((title, index, arr) => arr.indexOf(title) === index)\<close>.\<close>

definition firstOccurrences :: "'a list \<Rightarrow> 'a list" where
  "firstOccurrences arr =
     map fst (filter (\<lambda>(t, i). indexOf arr t = int i) (zip arr [0 ..< length arr]))"

definition getSearchSuggestions :: "string \<Rightarrow> string \<Rightarrow> nat \<Rightarrow> db \<Rightarrow> string list \<times> db" where
  "getSearchSuggestions user query limit d =
     (if length query < 2 then ([], d)
      else
        (case selectTitles (suggestionQuery user query limit) d of
           (suggestions, d') \<Rightarrow> (firstOccurrences (filterBoolean suggestions), d')))"

section \<open>Notions used to state the properties\<close>

text \<open>
  The recency of a result is its \<open>updatedAt\<close> when it has one and its \<open>createdAt\<close>
  otherwise. \<open>rankedBefore a b\<close> says that \<open>a\<close> may stand before \<open>b\<close> in a list sorted by
  score, highest first, with equal scores ordered by recency, latest first.
\<close>

definition recency :: "SearchResult \<Rightarrow> timestamp" where
  "recency r = (case updatedAt r of Some u \<Rightarrow> u | None \<Rightarrow> createdAt r)"

definition rankedBefore :: "SearchResult \<Rightarrow> SearchResult \<Rightarrow> bool" where
  "rankedBefore a b = (score b < score a \<or> (score a = score b \<and> recency b \<le> recency a))"

text \<open>Search terms in which no character has a special meaning for \<open>LIKE\<close>.\<close>

definition wildcardFree :: "string \<Rightarrow> bool" where
  "wildcardFree terms =
     (CHR ''%'' \<notin> set terms \<and> CHR ''_'' \<notin> set terms \<and> CHR 0x5C \<notin> set terms)"

text \<open>
  The bands of a message body that contains the search terms: 90 when it starts with
  them, 70 when it does not but ends with them, 50 otherwise.
\<close>

definition messageBand :: "string \<Rightarrow> string \<Rightarrow> rat" where
  "messageBand terms body =
     (if prefix terms body then 90 else if suffix terms body then 70 else 50)"

text \<open>
  Removal of duplicates in first-seen order: walking the list from the left, an element
  is kept unless it has been seen before.
\<close>

fun firstSeen :: "'a list \<Rightarrow> 'a list \<Rightarrow> 'a list" where
  "firstSeen seen [] = []"
| "firstSeen seen (x # xs) =
     (if x \<in> set seen then firstSeen seen xs else x # firstSeen (x # seen) xs)"

section \<open>Example stores\<close>

text \<open>
  The results of \<open>searchChats\<close> are the same for every matcher (lemma \<open>mergeFuzzy_id\<close>
  below); where an example needs a closed term, it uses the matcher that accepts every
  candidate it is given.
\<close>

definition fuzzyAll :: fuzzy where
  "fuzzyAll items query = items"

definition userOne :: SearchFilters where
  "userOne = \<lparr> userId = ''u1'', projectId = None, dateFrom = None, dateTo = None \<rparr>"

definition mkChat :: "string \<Rightarrow> string \<Rightarrow> timestamp \<Rightarrow> chat_row" where
  "mkChat i t u =
     \<lparr> chat_id = i, chat_title = Some t, chat_userId = ''u1'', chat_projectId = None,
       chat_createdAt = 1, chat_updatedAt = u \<rparr>"

definition mkMessage :: "string \<Rightarrow> string \<Rightarrow> string \<Rightarrow> timestamp \<Rightarrow> message_row" where
  "mkMessage i c body t =
     \<lparr> msg_id = i, msg_content = body, msg_role = User, msg_chatId = c, msg_createdAt = t \<rparr>"

text \<open>
  Five chats of one user, four of them with \<open>alpha\<close> in the title, and four messages in
  the first chat, each with \<open>alpha\<close> in the body.
\<close>

definition exampleDb :: db where
  "exampleDb =
     \<lparr> chatThreads =
         [ mkChat ''c1'' ''Alpha Notes'' 10,
           mkChat ''c2'' ''Project Alpha'' 20,
           mkChat ''c3'' ''The alpha release plan'' 30,
           mkChat ''c4'' ''alpha'' 40,
           mkChat ''c5'' ''Aplha typo'' 50 ],
       messages =
         [ mkMessage ''m1'' ''c1'' ''alpha'' 11,
           mkMessage ''m2'' ''c1'' ''alpha is first'' 12,
           mkMessage ''m3'' ''c1'' ''we ship ALPHA'' 13,
           mkMessage ''m4'' ''c1'' ''the alpha build'' 14 ],
       issued = [] \<rparr>"


text \<open>
  Chats whose titles repeat, one chat with an empty title and one without a title.
\<close>

definition mkUntitled :: "string \<Rightarrow> string option \<Rightarrow> timestamp \<Rightarrow> chat_row" where
  "mkUntitled i t u =
     \<lparr> chat_id = i, chat_title = t, chat_userId = ''u1'', chat_projectId = None,
       chat_createdAt = 1, chat_updatedAt = u \<rparr>"

definition repeatedTitles :: db where
  "repeatedTitles =
     \<lparr> chatThreads =
         [ mkChat ''c1'' ''Another Test'' 10,
           mkChat ''c2'' ''Test Chat 1'' 20,
           mkUntitled ''c3'' (Some []) 30,
           mkChat ''c4'' ''Test Chat 2'' 40,
           mkUntitled ''c5'' None 50,
           mkChat ''c6'' ''Test Chat 1'' 60 ],
       messages = [],
       issued = [] \<rparr>"

text \<open>
  Two requests for the combined search: one whose query is a no-break space, a space and
  a tab, and one whose query is the empty string.
\<close>

definition nbspRequest :: search_request where
  "nbspRequest =
     \<lparr> session_user = Some ''u1'', param_q = Some [CHR 0xA0, CHR '' '', CHR 0x09],
       param_type = None, param_limit = None, param_offset = None, param_dateFrom = None,
       param_dateTo = None, param_projectId = None \<rparr>"

definition emptyRequest :: search_request where
  "emptyRequest =
     \<lparr> session_user = Some ''u1'', param_q = Some [], param_type = None,
       param_limit = None, param_offset = None, param_dateFrom = None,
       param_dateTo = None, param_projectId = None \<rparr>"

section \<open>Lower case and patterns\<close>

lemma toLowerCase_char_idem: "toLowerCase_char (toLowerCase_char c) = toLowerCase_char c"
  by (auto simp: toLowerCase_char_def Let_def)

lemma toLowerCase_idem: "toLowerCase (toLowerCase s) = toLowerCase s"
  by (simp add: toLowerCase_def toLowerCase_char_idem)

lemma toLowerCase_percent: "toLowerCase_char CHR ''%'' = CHR ''%''"
  by (simp add: toLowerCase_char_def)

lemma toLowerCase_containsPattern:
  "toLowerCase (containsPattern t) = containsPattern (toLowerCase t)"
  by (simp add: toLowerCase_def containsPattern_def toLowerCase_percent)

text \<open>
  Beyond ASCII: \<open>U+00C9\<close> is lowered to \<open>U+00E9\<close>, the multiplication sign stays, and a
  leading no-break space is trimmed.
\<close>

lemma latin1_examples:
  "toLowerCase [CHR 0xC9, CHR 0xD7, CHR ''Z''] = [CHR 0xE9, CHR 0xD7, CHR ''z'']
   \<and> trim (CHR 0xA0 # ''alpha '') = ''alpha''"
  by code_simp

text \<open>
  On search terms that are already in lower case, the \<open>ILIKE\<close> of the \<open>WHERE\<close> clause and
  the first \<open>LIKE\<close> of the score expression are the same test.
\<close>

lemma ilike_lowered:
  "ilike t (containsPattern (toLowerCase x))
     = like (toLowerCase t) (containsPattern (toLowerCase x))"
  by (simp add: ilike_def toLowerCase_containsPattern toLowerCase_idem)

lemma chatScore_matching:
  "titleMatches (toLowerCase x) t \<Longrightarrow> chatScore (toLowerCase x) t = 100"
  by (cases t) (simp_all add: titleMatches_def chatScore_def ilike_lowered)

section \<open>The fuzzy step of searchChats\<close>

lemma pushFuzzy_unknown:
  "\<forall>it \<in> set its. item_id it \<notin> result_id ` set results \<Longrightarrow> pushFuzzy results its = results"
proof (induction its arbitrary: results)
  case Nil
  then show ?case by simp
next
  case (Cons it its)
  have "find (\<lambda>r. result_id r = item_id it) results = None"
    using Cons.prems by (force simp: find_None_iff image_iff)
  then show ?case using Cons by simp
qed

lemma additionalResults_unknown:
  "\<forall>it \<in> set (additionalResults fuzzySearch query limit results).
     item_id it \<notin> result_id ` set results"
  by (auto simp: additionalResults_def dest!: in_set_takeD)

lemma mergeFuzzy_id: "mergeFuzzy fuzzySearch query limit results = results"
  by (simp add: mergeFuzzy_def pushFuzzy_unknown additionalResults_unknown)

lemma searchChats_unfold:
  "fst (searchChats fuzzySearch query filters limit offset d) =
     (if toLowerCase (trim query) = [] then []
      else sortByScore (map chatResult
             (fst (selectChats (chatQuery (toLowerCase (trim query)) filters limit offset) d))))"
  by (simp add: searchChats_def Let_def mergeFuzzy_id split: prod.splits)

section \<open>Scores of the chat results\<close>

lemma chatMatches_score:
  assumes "h \<in> set (chatMatches q tbl)" "q_terms q = toLowerCase x"
  shows "snd h = 100"
  using assms by (auto simp: chatMatches_def chatOrdered_def chatWhere_def chatScore_matching)

lemma selectChats_score:
  assumes "h \<in> set (fst (selectChats q d))" "q_terms q = toLowerCase x"
  shows "snd h = 100"
  using assms chatMatches_score[of h q "chatThreads d" x]
  by (auto simp: selectChats_def page_def dest!: in_set_takeD in_set_dropD)

lemma score_chatResult: "score (chatResult h) = snd h"
  by (cases h) (simp add: chatResult_def)

lemma searchChats_score:
  assumes "r \<in> set (fst (searchChats fuzzySearch query filters limit offset d))"
  shows "score r = 100"
proof -
  let ?q = "chatQuery (toLowerCase (trim query)) filters limit offset"
  from assms obtain h where h: "h \<in> set (fst (selectChats ?q d))" and r: "r = chatResult h"
    by (auto simp: searchChats_unfold sortByScore_def split: if_splits)
  have "q_terms ?q = toLowerCase (trim query)" by (simp add: chatQuery_def)
  from selectChats_score[OF h this] show ?thesis by (simp add: r score_chatResult)
qed

text \<open>
  C4. For every matcher, query, limit and list of results, the fuzzy step of
  \<open>searchChats\<close> returns the list it was given: every candidate the matcher returns is
  either dropped as a known id or not found among the results. Hence every result
  that \<open>searchChats\<close> returns, for every store, has score exactly 100.
\<close>

theorem searchChats_fuzzy_adds_nothing_all_100:
  "mergeFuzzy fuzzySearch query limit results = results
   \<and> (\<forall>r \<in> set (fst (searchChats fuzzySearch query filters limit offset d)). score r = 100)"
  using mergeFuzzy_id searchChats_score by blast

theorem searchChats_fuzzy_adds_nothing_all_100_witness:
  "fst (searchChats fuzzyAll ''alpha'' userOne 10 0 exampleDb) \<noteq> []
   \<and> score (hd (fst (searchChats fuzzyAll ''alpha'' userOne 10 0 exampleDb))) = 100"
proof -
  let ?rs = "fst (searchChats fuzzyAll ''alpha'' userOne 10 0 exampleDb)"
  have "map result_id ?rs = [''c4'', ''c3'', ''c2'', ''c1'']"
    by code_simp
  then have ne: "?rs \<noteq> []"
    by auto
  then have "hd ?rs \<in> set ?rs"
    by simp
  then have "score (hd ?rs) = 100"
    using searchChats_fuzzy_adds_nothing_all_100
            [of fuzzyAll "''alpha''" 10 "[]" userOne 0 exampleDb]
    by blast
  with ne show ?thesis
    by simp
qed

section \<open>Order of the results\<close>

lemma rankedBefore_score: "rankedBefore a b \<Longrightarrow> - score a \<le> - score b"
  by (auto simp: rankedBefore_def)

lemma sortByScore_ranked:
  assumes "sorted_wrt rankedBefore rs"
  shows "sortByScore rs = rs"
proof -
  have "sorted_wrt (\<lambda>a b. - score a \<le> - score b) rs"
    using assms by (rule sorted_wrt_mono_rel[rotated]) (rule rankedBefore_score)
  then have "sorted (map (\<lambda>r. - score r) rs)"
    by (simp add: sorted_map)
  then show ?thesis
    unfolding sortByScore_def by (rule sort_key_id_if_sorted)
qed

lemma page_sorted_wrt: "sorted_wrt R xs \<Longrightarrow> sorted_wrt R (page limit offset xs)"
  by (simp add: page_def)

lemma recency_chatResult: "recency (chatResult (c, s)) = chat_updatedAt c"
  by (simp add: recency_def chatResult_def)

lemma chatMatches_ranked: "sorted_wrt rankedBefore (map chatResult (chatMatches q tbl))"
proof -
  let ?key = "\<lambda>(c, s). (- s, - chat_updatedAt c)"
  have "sorted (map ?key (chatMatches q tbl))"
    by (simp add: chatMatches_def chatOrdered_def)
  then have "sorted_wrt (\<lambda>a b. ?key a \<le> ?key b) (chatMatches q tbl)"
    by (simp add: sorted_map)
  then have "sorted_wrt (\<lambda>a b. rankedBefore (chatResult a) (chatResult b)) (chatMatches q tbl)"
    by (rule sorted_wrt_mono_rel[rotated])
       (auto simp: rankedBefore_def recency_chatResult score_chatResult)
  then show ?thesis by (simp add: sorted_wrt_map)
qed

lemma selectChats_ranked: "sorted_wrt rankedBefore (map chatResult (fst (selectChats q d)))"
  using chatMatches_ranked[of q "chatThreads d"]
  by (simp add: selectChats_def page_def take_map[symmetric] drop_map[symmetric])

lemma searchChats_ranked:
  "sorted_wrt rankedBefore (fst (searchChats fuzzySearch query filters limit offset d))"
  by (simp add: searchChats_unfold sortByScore_ranked selectChats_ranked)

lemma score_messageResult: "score (messageResult h) = snd h"
  by (cases h) (auto simp: messageResult_def split: prod.splits)

lemma recency_messageResult: "recency (messageResult ((m, c), s)) = msg_createdAt m"
  by (simp add: recency_def messageResult_def)

lemma messageMatches_ranked: "sorted_wrt rankedBefore (map messageResult (messageMatches q d))"
proof -
  let ?key = "\<lambda>((m, c), s). (- s, - msg_createdAt m)"
  have "sorted (map ?key (messageMatches q d))"
    by (simp add: messageMatches_def messageOrdered_def)
  then have "sorted_wrt (\<lambda>a b. ?key a \<le> ?key b) (messageMatches q d)"
    by (simp add: sorted_map)
  then have "sorted_wrt (\<lambda>a b. rankedBefore (messageResult a) (messageResult b)) (messageMatches q d)"
    by (rule sorted_wrt_mono_rel[rotated])
       (auto simp: rankedBefore_def recency_messageResult score_messageResult)
  then show ?thesis by (simp add: sorted_wrt_map)
qed

lemma searchMessages_unfold:
  "fst (searchMessages query filters limit offset d) =
     (if toLowerCase (trim query) = [] then []
      else map messageResult
             (fst (selectMessages (messageQuery (toLowerCase (trim query)) filters limit offset) d)))"
  by (simp add: searchMessages_def Let_def split: prod.splits)

lemma selectMessages_ranked:
  "sorted_wrt rankedBefore (map messageResult (fst (selectMessages q d)))"
  using messageMatches_ranked[of q d]
  by (simp add: selectMessages_def page_def take_map[symmetric] drop_map[symmetric])

lemma searchMessages_ranked:
  "sorted_wrt rankedBefore (fst (searchMessages query filters limit offset d))"
  by (simp add: searchMessages_unfold selectMessages_ranked)

lemma messageScore_bound: "messageScore terms body \<le> 90"
  by (simp add: messageScore_def)

lemma searchMessages_score_bound:
  assumes "r \<in> set (fst (searchMessages query filters limit offset d))"
  shows "score r \<le> 90"
  using assms
  by (auto simp: searchMessages_unfold selectMessages_def page_def messageMatches_def
        messageOrdered_def score_messageResult messageScore_bound
      split: if_splits dest!: in_set_takeD in_set_dropD)

lemma combined_ranked:
  "sorted_wrt rankedBefore
     (fst (searchChats fuzzySearch query filters limit offset d)
      @ fst (searchMessages query' filters' limit' offset' d'))"
proof -
  have "rankedBefore a b"
    if "a \<in> set (fst (searchChats fuzzySearch query filters limit offset d))"
      and "b \<in> set (fst (searchMessages query' filters' limit' offset' d'))" for a b
    using searchChats_score[OF that(1)] searchMessages_score_bound[OF that(2)]
    by (simp add: rankedBefore_def)
  then show ?thesis
    by (simp add: sorted_wrt_append searchChats_ranked searchMessages_ranked)
qed


lemma searchAll_unfold:
  "fst (searchAll fuzzySearch query filters limit d) =
     take limit
       (fst (searchChats fuzzySearch query filters (ceilHalf limit) 0 d)
        @ fst (searchMessages query filters (ceilHalf limit) 0
                 (snd (searchChats fuzzySearch query filters (ceilHalf limit) 0 d))))"
proof -
  obtain cs d1 where c: "searchChats fuzzySearch query filters (ceilHalf limit) 0 d = (cs, d1)"
    by (cases "searchChats fuzzySearch query filters (ceilHalf limit) 0 d")
  obtain ms d2 where m: "searchMessages query filters (ceilHalf limit) 0 d1 = (ms, d2)"
    by (cases "searchMessages query filters (ceilHalf limit) 0 d1")
  have "sorted_wrt rankedBefore (cs @ ms)"
    using combined_ranked[of fuzzySearch query filters "ceilHalf limit" 0 d
                             query filters "ceilHalf limit" 0 d1]
    by (simp add: c m)
  then have "sortByScore (cs @ ms) = cs @ ms"
    by (rule sortByScore_ranked)
  then show ?thesis
    by (simp add: searchAll_def c m)
qed

lemma semanticSearch_unfold:
  "fst (semanticSearch fuzzySearch query filters limit offset d) =
     page limit offset
       (fst (searchChats fuzzySearch query filters (ceilHalf limit) 0 d)
        @ fst (searchMessages query filters (ceilHalf limit) 0
                 (snd (searchChats fuzzySearch query filters (ceilHalf limit) 0 d))))"
proof -
  obtain cs d1 where c: "searchChats fuzzySearch query filters (ceilHalf limit) 0 d = (cs, d1)"
    by (cases "searchChats fuzzySearch query filters (ceilHalf limit) 0 d")
  obtain ms d2 where m: "searchMessages query filters (ceilHalf limit) 0 d1 = (ms, d2)"
    by (cases "searchMessages query filters (ceilHalf limit) 0 d1")
  have "sorted_wrt rankedBefore (cs @ ms)"
    using combined_ranked[of fuzzySearch query filters "ceilHalf limit" 0 d
                             query filters "ceilHalf limit" 0 d1]
    by (simp add: c m)
  then have "sortByScore (cs @ ms) = cs @ ms"
    by (rule sortByScore_ranked)
  then show ?thesis
    by (simp add: semanticSearch_def c m)
qed

lemma searchAll_ranked:
  "sorted_wrt rankedBefore (fst (searchAll fuzzySearch query filters limit d))"
  unfolding searchAll_unfold by (rule sorted_wrt_take) (rule combined_ranked)

lemma semanticSearch_ranked:
  "sorted_wrt rankedBefore (fst (semanticSearch fuzzySearch query filters limit offset d))"
  unfolding semanticSearch_unfold by (rule page_sorted_wrt) (rule combined_ranked)

text \<open>
  C5. The list returned by \<open>searchChats\<close>, by \<open>searchMessages\<close>, by the combined search of
  the route and by \<open>semanticSearch\<close> is sorted by score, highest first, and of two results
  with the same score the one with the later \<open>updatedAt\<close> (or \<open>createdAt\<close>, for a result
  without \<open>updatedAt\<close>) stands first. The store returns its rows in that order, and the
  sort by score that follows is stable. This holds for the empty list of a blank query as
  well.
\<close>

theorem results_sorted_by_score_then_recency:
  "sorted_wrt rankedBefore (fst (searchChats fuzzySearch query filters limit offset d))
   \<and> sorted_wrt rankedBefore (fst (searchMessages query filters limit offset d))
   \<and> sorted_wrt rankedBefore (fst (searchAll fuzzySearch query filters limit d))
   \<and> sorted_wrt rankedBefore (fst (semanticSearch fuzzySearch query filters limit offset d))"
  by (intro conjI searchChats_ranked searchMessages_ranked searchAll_ranked
        semanticSearch_ranked)

section \<open>Patterns without wildcards\<close>

lemma like_percent_any: "like s ''%''"
  by (induction s) auto

lemma like_percent: "like s (CHR ''%'' # p) = (\<exists>a b. s = a @ b \<and> like b p)"
proof (induction s)
  case Nil
  then show ?case by simp
next
  case (Cons x s)
  show ?case
  proof
    assume "like (x # s) (CHR ''%'' # p)"
    then consider "like (x # s) p" | "like s (CHR ''%'' # p)" by auto
    then show "\<exists>a b. x # s = a @ b \<and> like b p"
    proof cases
      case 1
      then show ?thesis by (intro exI[of _ "[]"] exI[of _ "x # s"]) simp
    next
      case 2
      with Cons.IH obtain a b where "s = a @ b" "like b p" by auto
      then show ?thesis by (intro exI[of _ "x # a"] exI[of _ b]) simp
    qed
  next
    assume "\<exists>a b. x # s = a @ b \<and> like b p"
    then obtain a b where ab: "x # s = a @ b" "like b p" by auto
    show "like (x # s) (CHR ''%'' # p)"
    proof (cases a)
      case Nil
      with ab show ?thesis by simp
    next
      case (Cons y a')
      with ab have "s = a' @ b" by simp
      with ab(2) Cons.IH have "like s (CHR ''%'' # p)" by auto
      then show ?thesis by simp
    qed
  qed
qed

lemma like_literal:
  "wildcardFree t \<Longrightarrow> like s (t @ p) = (\<exists>b. s = t @ b \<and> like b p)"
proof (induction t arbitrary: s)
  case Nil
  then show ?case by simp
next
  case (Cons c t)
  then have c: "c \<noteq> CHR ''%''" "c \<noteq> CHR ''_''" "c \<noteq> CHR 0x5C" and t: "wildcardFree t"
    by (auto simp: wildcardFree_def)
  show ?case
  proof (cases s)
    case Nil
    with c show ?thesis by simp
  next
    case (Cons x s')
    with c Cons.IH[OF t, of s'] show ?thesis by auto
  qed
qed

lemma like_startsPattern:
  assumes "wildcardFree t"
  shows "like s (startsPattern t) = prefix t s"
proof -
  have "like s (t @ ''%'') = (\<exists>b. s = t @ b \<and> like b ''%'')"
    using assms by (rule like_literal)
  then show ?thesis
    by (simp only: startsPattern_def like_percent_any prefix_def simp_thms)
qed

lemma like_literal_end:
  assumes "wildcardFree t"
  shows "like s t = (s = t)"
proof -
  have "like s (t @ []) = (\<exists>b. s = t @ b \<and> like b [])"
    using assms by (rule like_literal)
  then show ?thesis by auto
qed

lemma like_endsPattern:
  assumes "wildcardFree t"
  shows "like s (endsPattern t) = suffix t s"
proof -
  have "like s (CHR ''%'' # t) = (\<exists>a b. s = a @ b \<and> like b t)"
    by (rule like_percent)
  then show ?thesis
    by (simp only: endsPattern_def append_Cons append_Nil like_literal_end[OF assms] suffix_def)
       blast
qed

lemma like_containsPattern:
  assumes "wildcardFree t"
  shows "like s (containsPattern t) = sublist t s"
proof -
  have "like s (CHR ''%'' # t @ ''%'') = (\<exists>a b. s = a @ b \<and> like b (t @ ''%''))"
    by (rule like_percent)
  moreover have "like b (t @ ''%'') = (\<exists>c. b = t @ c)" for b
    using like_startsPattern[OF assms, of b] by (simp only: startsPattern_def prefix_def)
  ultimately show ?thesis
    by (simp only: containsPattern_def append_Cons append_Nil sublist_def) blast
qed

lemma messageScore_band:
  assumes "wildcardFree t" "like (toLowerCase body) (containsPattern t)"
  shows "messageScore t body = messageBand t (toLowerCase body)"
  using assms
  by (simp only: messageScore_def messageBand_def like_startsPattern like_endsPattern if_True)

section \<open>Blank queries\<close>

lemma sortByScore_Nil: "sortByScore [] = []"
  by (simp add: sortByScore_def)

lemma toLowerCase_Nil_iff: "toLowerCase s = [] \<longleftrightarrow> s = []"
  by (simp add: toLowerCase_def)

lemma searchChats_blank:
  "trim query = [] \<Longrightarrow> searchChats fuzzySearch query filters limit offset d = ([], d)"
  by (simp add: searchChats_def toLowerCase_Nil_iff)

lemma searchMessages_blank:
  "trim query = [] \<Longrightarrow> searchMessages query filters limit offset d = ([], d)"
  by (simp add: searchMessages_def toLowerCase_Nil_iff)

lemma searchAll_blank:
  "trim query = [] \<Longrightarrow> searchAll fuzzySearch query filters limit d = ([], d)"
  by (simp add: searchAll_def searchChats_blank searchMessages_blank sortByScore_Nil)

lemma semanticSearch_blank:
  "trim query = [] \<Longrightarrow> semanticSearch fuzzySearch query filters limit offset d = ([], d)"
  by (simp add: semanticSearch_def searchChats_blank searchMessages_blank sortByScore_Nil
        page_def)

lemma searchQuerySchema_limit:
  "searchQuerySchema r = Some v \<Longrightarrow> 1 \<le> v_limit v \<and> v_limit v \<le> 100"
  by (auto simp: searchQuerySchema_def Let_def split: option.splits if_splits)

lemma searchQuerySchema_q:
  "searchQuerySchema r = Some v \<Longrightarrow> param_q r = Some (v_q v) \<and> v_q v \<noteq> []"
  by (auto simp: searchQuerySchema_def Let_def split: option.splits if_splits)

lemma GET_store_blank:
  assumes "trim query = []" "param_q r = Some query"
  shows "snd (GET fuzzySearch r d) = d"
proof (cases "searchQuerySchema r")
  case None
  then show ?thesis
    by (simp add: GET_def split: option.splits)
next
  case (Some v)
  from searchQuerySchema_q[OF Some] assms(2) have q: "v_q v = query" by simp
  show ?thesis
    using assms(1) Some q
    by (cases "v_type v")
       (simp_all add: GET_def Let_def searchChats_blank searchMessages_blank searchAll_blank
          split: option.splits)
qed

lemma GET_valid_blank:
  assumes "trim query = []" "param_q r = Some query" "truthy (session_user r)"
    and v: "searchQuerySchema r = Some v"
  shows "GET fuzzySearch r d = (Inr (respond v []), d)
       \<and> resp_results (respond v []) = [] \<and> \<not> hasMore (respond v [])"
proof -
  from searchQuerySchema_q[OF v] assms(2) have q: "v_q v = query" by simp
  from searchQuerySchema_limit[OF v] have l: "1 \<le> v_limit v" by simp
  from assms(3) obtain u where u: "session_user r = Some u" "u \<noteq> []"
    by (auto simp: truthy_def split: option.splits)
  have "GET fuzzySearch r d = (Inr (respond v []), d)"
    using assms(1) v q u
    by (cases "v_type v")
       (simp_all add: GET_def Let_def searchChats_blank searchMessages_blank searchAll_blank)
  with l show ?thesis by (auto simp: respond_def)
qed

lemma GET_empty_query:
  assumes "param_q r = Some []" "truthy (session_user r)"
  shows "GET fuzzySearch r d = (Inl InvalidArgument, d)"
proof -
  from assms(2) obtain u where u: "session_user r = Some u" "u \<noteq> []"
    by (auto simp: truthy_def split: option.splits)
  have "searchQuerySchema r = None"
    using assms(1) by (simp add: searchQuerySchema_def Let_def)
  with u show ?thesis by (simp add: GET_def)
qed

text \<open>
  C7, as amended. For a query that is empty after trimming, \<open>searchChats\<close>,
  \<open>searchMessages\<close>, the combined search of the route and \<open>semanticSearch\<close> return the
  empty list and leave the store as it was, the record of issued statements included:
  no statement is sent, and the result does not depend on the tables. The route sends
  no statement either. When its schema accepts the request, the query has at least one
  character and the response has no results and \<open>hasMore\<close> false; when the query is the
  empty string, the route answers a signed-in user with the validation error and no
  list of results.
\<close>

theorem blank_query_no_store_access_route_rejects_empty:
  assumes "trim query = []"
  shows "searchChats fuzzySearch query filters limit offset d = ([], d)
       \<and> searchMessages query filters limit offset d = ([], d)
       \<and> searchAll fuzzySearch query filters limit d = ([], d)
       \<and> semanticSearch fuzzySearch query filters limit offset d = ([], d)
       \<and> (\<forall>r. param_q r = Some query \<longrightarrow> snd (GET fuzzySearch r d) = d)
       \<and> (\<forall>r v. param_q r = Some query \<and> truthy (session_user r)
                  \<and> searchQuerySchema r = Some v
             \<longrightarrow> query \<noteq> []
                 \<and> GET fuzzySearch r d = (Inr (respond v []), d)
                 \<and> resp_results (respond v []) = [] \<and> \<not> hasMore (respond v []))
       \<and> (\<forall>r. param_q r = Some query \<and> truthy (session_user r) \<and> query = []
             \<longrightarrow> GET fuzzySearch r d = (Inl InvalidArgument, d))"
proof -
  have 1: "snd (GET fuzzySearch r d) = d" if "param_q r = Some query" for r
    using GET_store_blank[OF assms that] .
  have 2: "query \<noteq> [] \<and> GET fuzzySearch r d = (Inr (respond v []), d)
             \<and> resp_results (respond v []) = [] \<and> \<not> hasMore (respond v [])"
    if "param_q r = Some query \<and> truthy (session_user r) \<and> searchQuerySchema r = Some v"
    for r v
    using GET_valid_blank[OF assms, of r v fuzzySearch d] searchQuerySchema_q[of r v] that
    by simp
  have 3: "GET fuzzySearch r d = (Inl InvalidArgument, d)"
    if "param_q r = Some query \<and> truthy (session_user r) \<and> query = []" for r
    using GET_empty_query[of r fuzzySearch d] that by simp
  show ?thesis
    using assms 1 2 3
    by (simp only: searchChats_blank searchMessages_blank searchAll_blank
          semanticSearch_blank simp_thms) blast
qed

text \<open>
  C7 as stated fails for the combined search on the empty string: the route answers it
  with the validation error, not with an empty list of results and \<open>hasMore\<close> false.
\<close>

theorem empty_query_route_counterexample:
  "trim [] = []
   \<and> param_q emptyRequest = Some []
   \<and> GET fuzzyAll emptyRequest exampleDb = (Inl InvalidArgument, exampleDb)"
  by code_simp

theorem blank_query_no_store_access_route_rejects_empty_witness:
  "trim [CHR 0xA0, CHR '' '', CHR 0x09] = []
   \<and> searchChats fuzzyAll [CHR 0xA0, CHR '' '', CHR 0x09] userOne 10 0 exampleDb
       = ([], exampleDb)
   \<and> searchMessages [CHR 0xA0, CHR '' '', CHR 0x09] userOne 10 0 exampleDb = ([], exampleDb)
   \<and> searchAll fuzzyAll [CHR 0xA0, CHR '' '', CHR 0x09] userOne 10 exampleDb = ([], exampleDb)
   \<and> GET fuzzyAll nbspRequest exampleDb
       = (Inr \<lparr> resp_results = [], resp_query = [CHR 0xA0, CHR '' '', CHR 0x09],
                 resp_type = TypeAll, resp_total = 0, hasMore = False \<rparr>, exampleDb)
   \<and> GET fuzzyAll emptyRequest exampleDb = (Inl InvalidArgument, exampleDb)"
proof -
  let ?q = "[CHR 0xA0, CHR '' '', CHR 0x09]"
  let ?v = "\<lparr> v_q = ?q, v_type = TypeAll, v_limit = 20, v_offset = 0 \<rparr>"
  have b: "trim ?q = []"
    by code_simp
  have e: "trim [] = []"
    by code_simp
  have p: "param_q nbspRequest = Some ?q \<and> truthy (session_user nbspRequest)
           \<and> searchQuerySchema nbspRequest = Some ?v"
    by code_simp
  have r: "respond ?v [] = \<lparr> resp_results = [], resp_query = ?q,
                 resp_type = TypeAll, resp_total = 0, hasMore = False \<rparr>"
    by code_simp
  have pe: "param_q emptyRequest = Some [] \<and> truthy (session_user emptyRequest)"
    by code_simp
  note T = blank_query_no_store_access_route_rejects_empty
             [OF b, of fuzzyAll userOne 10 0 exampleDb]
  note E = blank_query_no_store_access_route_rejects_empty
             [OF e, of fuzzyAll userOne 10 0 exampleDb]
  from T p have g: "GET fuzzyAll nbspRequest exampleDb = (Inr (respond ?v []), exampleDb)"
    by blast
  from E pe have ge: "GET fuzzyAll emptyRequest exampleDb = (Inl InvalidArgument, exampleDb)"
    by blast
  from T b g ge show ?thesis
    unfolding r by blast
qed

section \<open>Pages and kinds of results\<close>

lemma searchChats_store:
  assumes "toLowerCase (trim query) \<noteq> []"
  shows "snd (searchChats fuzzySearch query filters limit offset d)
           = d\<lparr>issued := issued d @ [chatQuery (toLowerCase (trim query)) filters limit offset]\<rparr>"
  using assms by (simp add: searchChats_def Let_def selectChats_def)

lemma searchChats_page:
  assumes "toLowerCase (trim query) \<noteq> []"
  shows "fst (searchChats fuzzySearch query filters limit offset d)
           = map chatResult
               (page limit offset
                  (chatMatches (chatQuery (toLowerCase (trim query)) filters limit offset)
                     (chatThreads d)))"
proof -
  let ?q = "chatQuery (toLowerCase (trim query)) filters limit offset"
  have "sortByScore (map chatResult (fst (selectChats ?q d)))
          = map chatResult (fst (selectChats ?q d))"
    by (rule sortByScore_ranked) (rule selectChats_ranked)
  then show ?thesis
    using assms by (simp add: searchChats_unfold selectChats_def chatQuery_def)
qed

lemma length_page: "length (page limit offset xs) \<le> limit"
  by (simp add: page_def)

lemma searchChats_length: "length (fst (searchChats fuzzySearch query filters limit offset d)) \<le> limit"
  by (cases "toLowerCase (trim query) = []")
     (simp_all add: searchChats_page length_page, simp add: searchChats_unfold)













text \<open>The results of the searches do not depend on the record of issued statements.\<close>

lemma searchMessages_issued:
  "fst (searchMessages query filters limit offset (d\<lparr>issued := i\<rparr>))
     = fst (searchMessages query filters limit offset d)"
  by (simp add: searchMessages_unfold selectMessages_def messageMatches_def joined_def)




section \<open>Suggestions\<close>

lemma indexOf_notmem: "x \<notin> set xs \<Longrightarrow> indexOf xs x = - 1"
  by (induction xs) (auto simp: Let_def)

lemma indexOf_mem: "x \<in> set xs \<Longrightarrow> 0 \<le> indexOf xs x \<and> indexOf xs x < int (length xs)"
  by (induction xs) (auto simp: Let_def)

lemma indexOf_append:
  "indexOf (pre @ ys) x =
     (if x \<in> set pre then indexOf pre x
      else if indexOf ys x < 0 then - 1 else int (length pre) + indexOf ys x)"
proof (induction pre)
  case Nil
  show ?case
    by (cases "x \<in> set ys") (use indexOf_mem[of x ys] in \<open>auto simp: indexOf_notmem\<close>)
next
  case (Cons p pre)
  then show ?case
    using indexOf_mem[of x pre] by (auto simp: Let_def)
qed

lemma indexOf_last: "indexOf (xs @ [x]) x = int (length xs) \<longleftrightarrow> x \<notin> set xs"
  using indexOf_mem[of x xs] by (auto simp: indexOf_append)

lemma firstSeen_snoc:
  "firstSeen seen (xs @ [x])
     = firstSeen seen xs @ (if x \<in> set seen \<union> set xs then [] else [x])"
  by (induction xs arbitrary: seen) auto

lemma firstOccurrences_snoc:
  "firstOccurrences (xs @ [x]) = firstOccurrences xs @ (if x \<in> set xs then [] else [x])"
proof -
  let ?P = "\<lambda>ys (t, i). indexOf ys t = int i"
  have z: "zip (xs @ [x]) [0 ..< length (xs @ [x])] = zip xs [0 ..< length xs] @ [(x, length xs)]"
    by simp
  have "filter (?P (xs @ [x])) (zip xs [0 ..< length xs])
          = filter (?P xs) (zip xs [0 ..< length xs])"
    by (rule filter_cong) (auto simp: indexOf_append dest: set_zip_leftD)
  moreover have "?P (xs @ [x]) (x, length xs) = (x \<notin> set xs)"
    using indexOf_last[of xs x] by simp
  ultimately show ?thesis
    unfolding firstOccurrences_def z filter_append map_append by simp
qed

lemma firstOccurrences_firstSeen: "firstOccurrences xs = firstSeen [] xs"
proof (induction xs rule: rev_induct)
  case Nil
  show ?case by (simp add: firstOccurrences_def)
next
  case (snoc x xs)
  then show ?case by (simp only: firstOccurrences_snoc firstSeen_snoc) simp
qed

lemma firstSeen_set_distinct:
  "set (firstSeen seen xs) = set xs - set seen \<and> distinct (firstSeen seen xs)"
  by (induction xs arbitrary: seen) auto

lemma filterBoolean_nonempty: "[] \<notin> set (filterBoolean titles)"
  by (auto simp: filterBoolean_def split: option.splits)

lemma getSearchSuggestions_unfold:
  "fst (getSearchSuggestions user query limit d) =
     (if length query < 2 then []
      else firstSeen []
             (filterBoolean (fst (selectTitles (suggestionQuery user query limit) d))))"
  by (simp add: getSearchSuggestions_def firstOccurrences_firstSeen split: prod.splits)

text \<open>
  C10. For every user, query, limit and store, the suggestions returned by
  \<open>getSearchSuggestions\<close> contain no string twice and no empty string (a chat without a
  title contributes nothing); they are the titles returned by the store with duplicates
  removed in first-seen order: a title is kept where it first occurs.
\<close>

theorem suggestions_distinct_nonempty_first_seen:
  "distinct (fst (getSearchSuggestions user query limit d))
   \<and> [] \<notin> set (fst (getSearchSuggestions user query limit d))
   \<and> fst (getSearchSuggestions user query limit d) =
       (if length query < 2 then []
        else firstSeen []
               (filterBoolean (fst (selectTitles (suggestionQuery user query limit) d))))"
  using filterBoolean_nonempty
  by (simp add: getSearchSuggestions_unfold firstSeen_set_distinct)

theorem suggestions_distinct_nonempty_first_seen_witness:
  "fst (selectTitles (suggestionQuery ''u1'' ''%%'' 10) repeatedTitles)
     = [Some ''Test Chat 1'', Some ''Test Chat 2'', Some [], Some ''Test Chat 1'',
        Some ''Another Test'']
   \<and> fst (getSearchSuggestions ''u1'' ''%%'' 10 repeatedTitles)
     = [''Test Chat 1'', ''Test Chat 2'', ''Another Test'']
   \<and> distinct (fst (getSearchSuggestions ''u1'' ''%%'' 10 repeatedTitles))"
proof -
  have t: "fst (selectTitles (suggestionQuery ''u1'' ''%%'' 10) repeatedTitles)
     = [Some ''Test Chat 1'', Some ''Test Chat 2'', Some [], Some ''Test Chat 1'',
        Some ''Another Test'']"
    by code_simp
  have f: "firstSeen [] (filterBoolean [Some ''Test Chat 1'', Some ''Test Chat 2'', Some [],
             Some ''Test Chat 1'', Some ''Another Test''])
           = [''Test Chat 1'', ''Test Chat 2'', ''Another Test'']"
    by code_simp
  have l: "\<not> length ''%%'' < 2"
    by simp
  from suggestions_distinct_nonempty_first_seen[of "''u1''" "''%%''" 10 repeatedTitles]
  show ?thesis
    unfolding t f by (simp only: l if_False t simp_thms) simp
qed

section \<open>Message results\<close>

lemma searchMessages_from_store:
  assumes "r \<in> set (fst (searchMessages query filters limit offset d))"
  shows "\<exists>m \<in> set (messages d). \<exists>c \<in> set (chatThreads d).
           r = messageResult ((m, c), messageScore (toLowerCase (trim query)) (msg_content m))
           \<and> ilike (msg_content m) (containsPattern (toLowerCase (trim query)))"
proof -
  let ?q = "messageQuery (toLowerCase (trim query)) filters limit offset"
  from assms obtain h where h: "h \<in> set (messageMatches ?q d)" and r: "r = messageResult h"
    by (auto simp: searchMessages_unfold selectMessages_def page_def
          split: if_splits dest!: in_set_takeD in_set_dropD)
  from h obtain m c where j: "(m, c) \<in> set (joined d)" "messageWhere ?q (m, c)"
      and hh: "h = ((m, c), messageScore (toLowerCase (trim query)) (msg_content m))"
    by (auto simp: messageMatches_def messageOrdered_def messageQuery_def)
  from j(1) have "m \<in> set (messages d)" "c \<in> set (chatThreads d)"
    by (auto simp: joined_def)
  moreover from j(2) have "ilike (msg_content m) (containsPattern (toLowerCase (trim query)))"
    by (simp add: messageWhere_def messageQuery_def)
  ultimately show ?thesis using r hh by blast
qed

lemma messageResult_fields:
  "result_id (messageResult ((m, c), s)) = msg_id m
   \<and> content (messageResult ((m, c), s)) = truncatedContent (msg_content m)
   \<and> score (messageResult ((m, c), s)) = s"
  by (simp add: messageResult_def)

lemma messageScore_matching:
  assumes "ilike body (containsPattern (toLowerCase x))"
  shows "messageScore (toLowerCase x) body \<in> {90, 70, 50}"
  using assms by (simp add: ilike_lowered messageScore_def)

lemma messageBand_equal: "messageBand terms terms = 90"
  by (simp add: messageBand_def)

lemma searchMessages_score_set:
  assumes "r \<in> set (fst (searchMessages query filters limit offset d))"
  shows "score r \<in> {90, 70, 50}"
proof -
  from searchMessages_from_store[OF assms] obtain m c where
    rr: "r = messageResult ((m, c), messageScore (toLowerCase (trim query)) (msg_content m))"
    and i: "ilike (msg_content m) (containsPattern (toLowerCase (trim query)))"
    by blast
  have "score r = messageScore (toLowerCase (trim query)) (msg_content m)"
    unfolding rr by (simp add: messageResult_fields)
  with messageScore_matching[OF i] show ?thesis
    by simp
qed

lemma searchMessages_band:
  assumes "r \<in> set (fst (searchMessages query filters limit offset d))"
    and w: "wildcardFree (toLowerCase (trim query))"
  shows "\<exists>m \<in> set (messages d).
           result_id r = msg_id m
           \<and> sublist (toLowerCase (trim query)) (toLowerCase (msg_content m))
           \<and> score r = messageBand (toLowerCase (trim query)) (toLowerCase (msg_content m))"
proof -
  from searchMessages_from_store[OF assms(1)] obtain m c where
    m: "m \<in> set (messages d)"
    and rr: "r = messageResult ((m, c), messageScore (toLowerCase (trim query)) (msg_content m))"
    and i: "ilike (msg_content m) (containsPattern (toLowerCase (trim query)))"
    by blast
  from i have l: "like (toLowerCase (msg_content m)) (containsPattern (toLowerCase (trim query)))"
    by (simp only: ilike_lowered)
  have 1: "sublist (toLowerCase (trim query)) (toLowerCase (msg_content m))"
    using l by (simp only: like_containsPattern[OF w])
  have 2: "score r = messageBand (toLowerCase (trim query)) (toLowerCase (msg_content m))"
    unfolding rr using messageScore_band[OF w l] by (simp add: messageResult_fields)
  have 3: "result_id r = msg_id m"
    unfolding rr by (simp add: messageResult_fields)
  from m 1 2 3 show ?thesis
    by (intro bexI[of _ m] conjI)
qed

text \<open>
  Two bodies beyond ASCII: for the query \<open>U+00C9\<close> the body \<open>U+00E9\<close>, space,
  \<open>U+00C9\<close> starts with the search terms; for the query no-break space, \<open>alpha\<close> the
  terms are \<open>alpha\<close>, with which the body no-break space, \<open>alpha\<close> ends but does not
  start.
\<close>

lemma latin1_message_scores:
  "messageScore (toLowerCase (trim [CHR 0xC9])) [CHR 0xE9, CHR '' '', CHR 0xC9] = 90
   \<and> messageScore (toLowerCase (trim (CHR 0xA0 # ''alpha''))) (CHR 0xA0 # ''alpha'') = 70"
  by code_simp

text \<open>
  C2, as amended. Every result of \<open>searchMessages\<close> scores 90, 70 or 50; no other value
  occurs, 110 in particular. When the search terms (the query trimmed and in lower case)
  contain none of \<open>%\<close>, \<open>_\<close> and the backslash, the result comes from a message whose
  lower-cased content contains the terms, and its score is 90 when that content starts
  with the terms, 70 when it does not but ends with them, and 50 otherwise. Content
  equal to the terms starts with them: it scores 90.
\<close>

theorem searchMessages_bands:
  "messageBand terms terms = 90
   \<and> (\<forall>r \<in> set (fst (searchMessages query filters limit offset d)).
        score r \<in> {90, 70, 50}
        \<and> (wildcardFree (toLowerCase (trim query)) \<longrightarrow>
             (\<exists>m \<in> set (messages d).
                result_id r = msg_id m
                \<and> sublist (toLowerCase (trim query)) (toLowerCase (msg_content m))
                \<and> score r = messageBand (toLowerCase (trim query)) (toLowerCase (msg_content m)))))"
  by (intro conjI ballI impI messageBand_equal searchMessages_score_set searchMessages_band)

text \<open>
  C2 as stated fails: for the query \<open>alpha\<close> the message whose content is exactly
  \<open>alpha\<close> scores 90, not 110.
\<close>

theorem message_equal_to_query_counterexample:
  "map content (fst (searchMessages ''alpha'' userOne 10 0 exampleDb))
     = [''alpha is first'', ''alpha'', ''we ship ALPHA'', ''the alpha build'']
   \<and> map score (fst (searchMessages ''alpha'' userOne 10 0 exampleDb)) = [90, 90, 70, 50]"
  by code_simp

theorem searchMessages_bands_witness:
  "wildcardFree (toLowerCase (trim ''alpha''))
   \<and> fst (searchMessages ''alpha'' userOne 10 0 exampleDb) \<noteq> []
   \<and> (\<exists>m \<in> set (messages exampleDb).
         result_id (hd (fst (searchMessages ''alpha'' userOne 10 0 exampleDb))) = msg_id m
         \<and> sublist (toLowerCase (trim ''alpha'')) (toLowerCase (msg_content m))
         \<and> score (hd (fst (searchMessages ''alpha'' userOne 10 0 exampleDb)))
             = messageBand (toLowerCase (trim ''alpha'')) (toLowerCase (msg_content m)))"
proof -
  let ?rs = "fst (searchMessages ''alpha'' userOne 10 0 exampleDb)"
  have w: "wildcardFree (toLowerCase (trim ''alpha''))"
    by code_simp
  have "map result_id ?rs = [''m2'', ''m1'', ''m3'', ''m4'']"
    by code_simp
  then have ne: "?rs \<noteq> []"
    by auto
  then have "hd ?rs \<in> set ?rs"
    by simp
  with w ne searchMessages_bands[of "[]" "''alpha''" userOne 10 0 exampleDb]
  show ?thesis
    by blast
qed

lemma truncatedContent_long:
  "length body > 200 \<Longrightarrow>
     truncatedContent body = take 200 body @ ''...'' \<and> length (truncatedContent body) = 203"
  by (simp add: truncatedContent_def)

lemma truncatedContent_short: "length body \<le> 200 \<Longrightarrow> truncatedContent body = body"
  by (simp add: truncatedContent_def)

text \<open>
  C9. Content of more than 200 characters becomes its first 200 characters followed by
  \<open>...\<close>, 203 characters in all; content of at most 200 characters is left as it is; and
  the \<open>content\<close> of every result of \<open>searchMessages\<close> is this snippet of the content of
  the message the result stands for.
\<close>

theorem snippet_truncated_to_203:
  "(length body > 200 \<longrightarrow>
      truncatedContent body = take 200 body @ ''...'' \<and> length (truncatedContent body) = 203)
   \<and> (length body \<le> 200 \<longrightarrow> truncatedContent body = body)
   \<and> (\<forall>r \<in> set (fst (searchMessages query filters limit offset d)).
        \<exists>m \<in> set (messages d).
          result_id r = msg_id m \<and> content r = truncatedContent (msg_content m))"
proof (intro conjI ballI impI)
  fix r assume r: "r \<in> set (fst (searchMessages query filters limit offset d))"
  from searchMessages_from_store[OF r] obtain m c where
    m: "m \<in> set (messages d)"
    and rr: "r = messageResult ((m, c), messageScore (toLowerCase (trim query)) (msg_content m))"
    by blast
  have "result_id r = msg_id m \<and> content r = truncatedContent (msg_content m)"
    by (simp only: rr messageResult_fields)
  with m show "\<exists>m \<in> set (messages d).
          result_id r = msg_id m \<and> content r = truncatedContent (msg_content m)"
    by blast
qed (simp_all add: truncatedContent_long truncatedContent_short)

theorem snippet_truncated_to_203_witness:
  "length (replicate 250 CHR ''A'') > 200
   \<and> truncatedContent (replicate 250 CHR ''A'') = replicate 200 CHR ''A'' @ ''...''
   \<and> length (truncatedContent (replicate 250 CHR ''A'')) = 203
   \<and> truncatedContent ''alpha'' = ''alpha''
   \<and> fst (searchMessages ''alpha'' userOne 1 1 exampleDb) \<noteq> []
   \<and> (\<exists>m \<in> set (messages exampleDb).
         result_id (hd (fst (searchMessages ''alpha'' userOne 1 1 exampleDb))) = msg_id m
         \<and> content (hd (fst (searchMessages ''alpha'' userOne 1 1 exampleDb)))
             = truncatedContent (msg_content m))"
proof -
  let ?rs = "fst (searchMessages ''alpha'' userOne 1 1 exampleDb)"
  have l: "length (replicate 250 CHR ''A'') > 200"
    by simp
  have s: "length ''alpha'' \<le> 200"
    by simp
  have "map result_id ?rs = [''m1'']"
    by code_simp
  then have ne: "?rs \<noteq> []"
    by auto
  then have h: "hd ?rs \<in> set ?rs"
    by simp
  from snippet_truncated_to_203[of "replicate 250 CHR ''A''" "''alpha''" userOne 1 1 exampleDb] l
  have a: "truncatedContent (replicate 250 CHR ''A'') = take 200 (replicate 250 CHR ''A'') @ ''...''
           \<and> length (truncatedContent (replicate 250 CHR ''A'')) = 203"
    by blast
  from snippet_truncated_to_203[of "''alpha''" "''alpha''" userOne 1 1 exampleDb] s h
  have b: "truncatedContent ''alpha'' = ''alpha''
           \<and> (\<exists>m \<in> set (messages exampleDb).
                 result_id (hd ?rs) = msg_id m \<and> content (hd ?rs) = truncatedContent (msg_content m))"
    by blast
  from a have "truncatedContent (replicate 250 CHR ''A'') = replicate 200 CHR ''A'' @ ''...''"
    by simp
  with l a b ne show ?thesis
    by blast
qed

section \<open>The chat search on the example store\<close>

lemma alpha_terms: "toLowerCase (trim ''alpha'') = ''alpha''"
  by code_simp

lemma alpha_rows:
  "map chatResult (fst (selectChats (chatQuery ''alpha'' userOne 10 0) exampleDb))
     = map chatResult
         [ (mkChat ''c4'' ''alpha'' 40, 100),
           (mkChat ''c3'' ''The alpha release plan'' 30, 100),
           (mkChat ''c2'' ''Project Alpha'' 20, 100),
           (mkChat ''c1'' ''Alpha Notes'' 10, 100) ]"
  by code_simp

lemma alpha_results:
  "fst (searchChats fuzzySearch ''alpha'' userOne 10 0 exampleDb)
     = map chatResult
         [ (mkChat ''c4'' ''alpha'' 40, 100),
           (mkChat ''c3'' ''The alpha release plan'' 30, 100),
           (mkChat ''c2'' ''Project Alpha'' 20, 100),
           (mkChat ''c1'' ''Alpha Notes'' 10, 100) ]"
proof -
  have "fst (searchChats fuzzySearch ''alpha'' userOne 10 0 exampleDb)
          = map chatResult (fst (selectChats (chatQuery ''alpha'' userOne 10 0) exampleDb))"
    using sortByScore_ranked[OF selectChats_ranked[of "chatQuery ''alpha'' userOne 10 0" exampleDb]]
    by (simp only: searchChats_unfold alpha_terms) simp
  then show ?thesis
    by (simp only: alpha_rows)
qed

text \<open>
  C1, on the example store. For the query \<open>alpha\<close> the title \<open>Alpha Notes\<close> starts with
  the search terms, \<open>Project Alpha\<close> ends with them and \<open>The alpha release plan\<close> has
  them in the middle. The score expression gives each of the three 100, not 80, 60 and
  40: its first \<open>WHEN\<close> holds for every title that contains the terms, so the branches
  below it are never reached. For every matcher \<open>searchChats\<close> returns the four matching
  chats with score 100 each.
\<close>

theorem chat_titles_all_score_100:
  "chatScore ''alpha'' (Some ''Alpha Notes'') = 100
   \<and> chatScore ''alpha'' (Some ''Project Alpha'') = 100
   \<and> chatScore ''alpha'' (Some ''The alpha release plan'') = 100
   \<and> map title (fst (searchChats fuzzySearch ''alpha'' userOne 10 0 exampleDb))
       = [''alpha'', ''The alpha release plan'', ''Project Alpha'', ''Alpha Notes'']
   \<and> map score (fst (searchChats fuzzySearch ''alpha'' userOne 10 0 exampleDb))
       = [100, 100, 100, 100]"
proof -
  have "chatScore ''alpha'' (Some ''Alpha Notes'') = 100
   \<and> chatScore ''alpha'' (Some ''Project Alpha'') = 100
   \<and> chatScore ''alpha'' (Some ''The alpha release plan'') = 100"
    by code_simp
  moreover have "map title (map chatResult
         [ (mkChat ''c4'' ''alpha'' 40, 100),
           (mkChat ''c3'' ''The alpha release plan'' 30, 100),
           (mkChat ''c2'' ''Project Alpha'' 20, 100),
           (mkChat ''c1'' ''Alpha Notes'' 10, 100) ])
       = [''alpha'', ''The alpha release plan'', ''Project Alpha'', ''Alpha Notes'']"
    by code_simp
  moreover have "map score (map chatResult
         [ (mkChat ''c4'' ''alpha'' 40, 100),
           (mkChat ''c3'' ''The alpha release plan'' 30, 100),
           (mkChat ''c2'' ''Project Alpha'' 20, 100),
           (mkChat ''c1'' ''Alpha Notes'' 10, 100) ])
       = [100, 100, 100, 100]"
    by (simp add: score_chatResult)
  ultimately show ?thesis
    by (simp only: alpha_results simp_thms)
qed

text \<open>
  C3, on the example store. The user has five chats; \<open>Aplha typo\<close> is the one whose
  title does not contain \<open>alpha\<close>. With limit 10 the store returns four rows, fewer than
  the limit, and the candidates handed to the matcher are the titles of these four
  rows, not the titles of all five chats. For every matcher \<open>searchChats\<close> returns exactly
  the four rows of the store: no candidate is appended, with any score.
\<close>

theorem fuzzy_candidates_never_appended:
  "length (filter (\<lambda>c. chat_userId c = userId userOne) (chatThreads exampleDb)) = 5
   \<and> map item_label
        (map fuzzyItem (map chatResult
           (fst (selectChats (chatQuery ''alpha'' userOne 10 0) exampleDb))))
       = [''alpha'', ''The alpha release plan'', ''Project Alpha'', ''Alpha Notes'']
   \<and> map result_id (fst (searchChats fuzzySearch ''alpha'' userOne 10 0 exampleDb))
       = [''c4'', ''c3'', ''c2'', ''c1'']
   \<and> length (fst (searchChats fuzzySearch ''alpha'' userOne 10 0 exampleDb)) < 10"
proof -
  have "length (filter (\<lambda>c. chat_userId c = userId userOne) (chatThreads exampleDb)) = 5"
    by code_simp
  moreover have "map item_label
        (map fuzzyItem (map chatResult
         [ (mkChat ''c4'' ''alpha'' 40, 100),
           (mkChat ''c3'' ''The alpha release plan'' 30, 100),
           (mkChat ''c2'' ''Project Alpha'' 20, 100),
           (mkChat ''c1'' ''Alpha Notes'' 10, 100) ]))
       = [''alpha'', ''The alpha release plan'', ''Project Alpha'', ''Alpha Notes'']"
    by code_simp
  moreover have "map result_id (map chatResult
         [ (mkChat ''c4'' ''alpha'' 40, 100),
           (mkChat ''c3'' ''The alpha release plan'' 30, 100),
           (mkChat ''c2'' ''Project Alpha'' 20, 100),
           (mkChat ''c1'' ''Alpha Notes'' 10, 100) ])
       = [''c4'', ''c3'', ''c2'', ''c1'']"
    by code_simp
  ultimately show ?thesis
    by (simp only: alpha_results alpha_rows simp_thms) simp
qed

section \<open>The combined search and the page of the chat search\<close>













text \<open>
  C8, as amended. For a query that is not blank, \<open>searchChats\<close> sends one statement to
  the store, and it carries the limit and the offset of the call; the list returned is
  the page the store answers with, that is the rows from \<open>offset\<close> on, at most \<open>limit\<close> of
  them, of the ordered list of all matches, and it is not cut again after the fuzzy
  step and the sort. It has at most \<open>limit\<close> entries.
\<close>

theorem searchChats_paginates_store_query:
  assumes "toLowerCase (trim query) \<noteq> []"
  shows "issued (snd (searchChats fuzzySearch query filters limit offset d))
           = issued d @ [chatQuery (toLowerCase (trim query)) filters limit offset]
       \<and> q_limit (chatQuery (toLowerCase (trim query)) filters limit offset) = limit
       \<and> q_offset (chatQuery (toLowerCase (trim query)) filters limit offset) = offset
       \<and> fst (searchChats fuzzySearch query filters limit offset d)
           = map chatResult
               (page limit offset
                  (chatMatches (chatQuery (toLowerCase (trim query)) filters limit offset)
                     (chatThreads d)))
       \<and> length (fst (searchChats fuzzySearch query filters limit offset d)) \<le> limit"
  using searchChats_page[OF assms, of fuzzySearch filters limit offset d]
        searchChats_length[of fuzzySearch query filters limit offset d]
  by (simp add: searchChats_store[OF assms] chatQuery_def)

text \<open>
  C8 as stated fails: for the query \<open>alpha\<close> with limit 2 and offset 1 the statement sent
  to the store carries limit 2 and offset 1, so that the store answers with two of the
  four matching rows, and these two are the list returned.
\<close>

theorem searchChats_pagination_counterexample:
  "issued (snd (searchChats fuzzyAll ''alpha'' userOne 2 1 exampleDb))
     = [chatQuery ''alpha'' userOne 2 1]
   \<and> q_limit (chatQuery ''alpha'' userOne 2 1) = 2
   \<and> q_offset (chatQuery ''alpha'' userOne 2 1) = 1
   \<and> length (chatMatches (chatQuery ''alpha'' userOne 2 1) (chatThreads exampleDb)) = 4
   \<and> length (fst (selectChats (chatQuery ''alpha'' userOne 2 1) exampleDb)) = 2
   \<and> map result_id (fst (searchChats fuzzyAll ''alpha'' userOne 2 1 exampleDb))
     = [''c3'', ''c2'']"
  by code_simp

theorem searchChats_paginates_store_query_witness:
  "toLowerCase (trim ''alpha'') \<noteq> []
   \<and> issued (snd (searchChats fuzzyAll ''alpha'' userOne 2 1 exampleDb))
       = [chatQuery ''alpha'' userOne 2 1]
   \<and> map result_id (fst (searchChats fuzzyAll ''alpha'' userOne 2 1 exampleDb))
       = map result_id
           (map chatResult
              (page 2 1 (chatMatches (chatQuery ''alpha'' userOne 2 1) (chatThreads exampleDb))))
   \<and> length (fst (searchChats fuzzyAll ''alpha'' userOne 2 1 exampleDb)) \<le> 2"
proof -
  have t: "toLowerCase (trim ''alpha'') = ''alpha''"
    by code_simp
  then have ne: "toLowerCase (trim ''alpha'') \<noteq> []"
    by simp
  have i: "issued exampleDb = []"
    by (simp add: exampleDb_def)
  note T = searchChats_paginates_store_query
             [OF ne, of fuzzyAll userOne 2 1 exampleDb, unfolded t i append_Nil]
  from T have a: "issued (snd (searchChats fuzzyAll ''alpha'' userOne 2 1 exampleDb))
       = [chatQuery ''alpha'' userOne 2 1]"
    by (elim conjE)
  from T have b: "fst (searchChats fuzzyAll ''alpha'' userOne 2 1 exampleDb)
       = map chatResult
           (page 2 1 (chatMatches (chatQuery ''alpha'' userOne 2 1) (chatThreads exampleDb)))"
    by (elim conjE)
  from T have c: "length (fst (searchChats fuzzyAll ''alpha'' userOne 2 1 exampleDb)) \<le> 2"
    by (elim conjE)
  show ?thesis
    by (intro conjI ne a c) (simp only: b)
qed

end
